theory Spec2Isabelle
  imports Complex_Main
begin

section \<open>The constellation animation\<close>

text \<open>
  A shallow embedding of the class \<open>Constellation\<close>: the field of moving stars behind
  the page, the lines between stars that are near each other, and the pull of the
  pointer on the stars around it.

  JavaScript numbers are read as real numbers: \<open>+\<close>, \<open>-\<close>, \<open>*\<close>, \<open>/\<close> and
  \<open>Math.sqrt\<close> are the exact operations. The rounding of IEEE doubles, overflow to
  \<open>Infinity\<close> and \<open>NaN\<close> are outside the model, with one exception: the division by
  \<open>starDensity\<close> in \<open>createStars\<close>, where a zero divisor is written out.

  The canvas, its 2D context and \<open>animationId\<close> are not modelled: \<open>draw\<close> reads the
  stars and the lines and changes neither, and no property below is about the frame
  scheduler.
\<close>

subsection \<open>Data\<close>

text \<open>
  A star is the object literal pushed by \<open>createStars\<close>. The fields \<open>x\<close>, \<open>y\<close>,
  \<open>size\<close> and \<open>opacity\<close> carry the prefix \<open>star_\<close>; the other fields keep their names.
\<close>

record star =
  star_x :: real
  star_y :: real
  star_size :: real
  star_opacity :: real
  vx :: real
  vy :: real
  originalVx :: real
  originalVy :: real

text \<open>
  A line holds references to two star objects of the array \<open>this.stars\<close>. The
  references are the indices of the two stars in the array at the time \<open>createLines\<close>
  ran: a later change of a star's velocity is seen through the line, as in the source.
\<close>

record line =
  line_start :: nat
  line_end :: nat
  line_opacity :: real
  line_distance :: real

text \<open>The object \<open>this.config\<close>; nested objects are flattened (\<open>speed.min\<close> is \<open>speed_min\<close>).\<close>

record config =
  starDensity :: real
  maxDistance :: real
  starSize_min :: real
  starSize_max :: real
  opacity_min :: real
  opacity_max :: real
  speed_min :: real
  speed_max :: real
  mouseInfluence :: real
  mouseForce :: real

record constellation =
  stars :: "star list"
  lines :: "line list"
  mouse_x :: real
  mouse_y :: real
  width :: real
  height :: real
  config :: config

text \<open>The configuration written in the constructor.\<close>

definition default_config :: config where
  "default_config =
     \<lparr>starDensity = 8000, maxDistance = 130,
      starSize_min = 0.5, starSize_max = 2,
      opacity_min = 0.2, opacity_max = 0.8,
      speed_min = - 0.3, speed_max = 0.3,
      mouseInfluence = 100, mouseForce = 0.00005\<rparr>"

text \<open>
  \<open>Math.random()\<close> returns a number in \<open>[0, 1)\<close>. Every operation that draws random
  numbers takes its draws as a function from the position of the draw to its value.
\<close>

definition unit_draws :: "(nat \<Rightarrow> real) \<Rightarrow> bool" where
  "unit_draws rnd \<longleftrightarrow> (\<forall>i. 0 \<le> rnd i \<and> rnd i < 1)"

subsection \<open>updateStars\<close>

text \<open>
  The body of the \<open>forEach\<close> in \<open>updateStars\<close> for one star, with \<open>r\<close> the value of the
  one call of \<open>Math.random()\<close>. The four wraparound tests run one after the other, each
  on the value the one before left.
\<close>

definition updateStar :: "real \<Rightarrow> real \<Rightarrow> config \<Rightarrow> real \<Rightarrow> star \<Rightarrow> star" where
  "updateStar w h cfg r s =
     (let x1 = star_x s + vx s;
          y1 = star_y s + vy s;
          x2 = (if x1 < 0 then w else x1);
          x3 = (if x2 > w then 0 else x2);
          y2 = (if y1 < 0 then h else y1);
          y3 = (if y2 > h then 0 else y2);
          o1 = star_opacity s + (r - 0.5) * 0.02;
          o2 = max (opacity_min cfg) (min (opacity_max cfg) o1);
          vx1 = vx s + (originalVx s - vx s) * 0.01;
          vy1 = vy s + (originalVy s - vy s) * 0.01
      in s\<lparr>star_x := x3, star_y := y3, star_opacity := o2, vx := vx1, vy := vy1\<rparr>)"

text \<open>The star at index \<open>i\<close> of the array gets the draw \<open>rnd i\<close>.\<close>

definition updateStars :: "(nat \<Rightarrow> real) \<Rightarrow> constellation \<Rightarrow> constellation" where
  "updateStars rnd c =
     c\<lparr>stars := map (\<lambda>(i, s). updateStar (width c) (height c) (config c) (rnd i) s)
                    (enumerate 0 (stars c))\<rparr>"

subsection \<open>createStars\<close>

text \<open>
  The number of times the body of \<open>for (let i = 0; i < numStars; i++)\<close> runs, with
  \<open>numStars = Math.floor((this.width * this.height) / this.config.starDensity)\<close>.
  A quotient below \<open>1\<close> gives no iteration. With a zero \<open>starDensity\<close> the quotient of
  JavaScript is \<open>Infinity\<close> for a positive area, and the loop never ends: the value is
  \<open>None\<close>; it is \<open>NaN\<close> or \<open>-Infinity\<close> otherwise, and the body never runs.
\<close>

definition numStars :: "constellation \<Rightarrow> nat option" where
  "numStars c =
     (let area = width c * height c; d = starDensity (config c)
      in if d = 0 then (if 0 < area then None else Some 0)
         else Some (nat \<lfloor>area / d\<rfloor>))"

text \<open>
  The object literal pushed in iteration \<open>i\<close>. Its properties are evaluated in the order
  they are written, so iteration \<open>i\<close> makes the draws \<open>6 * i\<close> to \<open>6 * i + 5\<close>.
\<close>

definition pushedStar :: "real \<Rightarrow> real \<Rightarrow> config \<Rightarrow> (nat \<Rightarrow> real) \<Rightarrow> nat \<Rightarrow> star" where
  "pushedStar w h cfg rnd i =
     \<lparr>star_x = rnd (6 * i) * w,
      star_y = rnd (6 * i + 1) * h,
      star_size = rnd (6 * i + 2) * (starSize_max cfg - starSize_min cfg) + starSize_min cfg,
      star_opacity = rnd (6 * i + 3) * (opacity_max cfg - opacity_min cfg) + opacity_min cfg,
      vx = (rnd (6 * i + 4) - 0.5) * (speed_max cfg - speed_min cfg) + speed_min cfg,
      vy = (rnd (6 * i + 5) - 0.5) * (speed_max cfg - speed_min cfg) + speed_min cfg,
      originalVx = 0,
      originalVy = 0\<rparr>"

text \<open>The array \<open>this.stars\<close> after the first \<open>n\<close> iterations of the loop.\<close>

fun pushStars :: "real \<Rightarrow> real \<Rightarrow> config \<Rightarrow> (nat \<Rightarrow> real) \<Rightarrow> nat \<Rightarrow> star list" where
  "pushStars w h cfg rnd 0 = []"
| "pushStars w h cfg rnd (Suc n) = pushStars w h cfg rnd n @ [pushedStar w h cfg rnd n]"

text \<open>The body of the second pass, which stores the velocities as the original ones.\<close>

definition storeOriginal :: "star \<Rightarrow> star" where
  "storeOriginal s = s\<lparr>originalVx := vx s, originalVy := vy s\<rparr>"

text \<open>
  \<open>createStars\<close> replaces the array \<open>this.stars\<close> and leaves \<open>this.lines\<close> alone. Until
  the next \<open>createLines\<close> the lines of the source still refer to the stars of the old
  array, which the indices of the model no longer denote; nothing reads the lines in
  between, since \<open>draw\<close> only runs in \<open>animate\<close>, after \<open>createLines\<close>.
\<close>

definition createStars :: "(nat \<Rightarrow> real) \<Rightarrow> constellation \<Rightarrow> constellation option" where
  "createStars rnd c =
     (case numStars c of
        None \<Rightarrow> None
      | Some n \<Rightarrow>
          Some (c\<lparr>stars := map storeOriginal
                              (pushStars (width c) (height c) (config c) rnd n)\<rparr>))"

subsection \<open>createLines\<close>

text \<open>The pushed line for the stars at the indices \<open>i\<close> and \<open>j\<close>, at the distance \<open>d\<close>.\<close>

definition pushedLine :: "config \<Rightarrow> nat \<Rightarrow> nat \<Rightarrow> real \<Rightarrow> line" where
  "pushedLine cfg i j d =
     \<lparr>line_start = i, line_end = j,
      line_opacity = (maxDistance cfg - d) / maxDistance cfg * 0.5,
      line_distance = d\<rparr>"

text \<open>
  The inner loop, from \<open>j\<close> on, with \<open>ls\<close> the array \<open>this.lines\<close> so far. The outer
  loop runs it for an index \<open>i\<close> of the array only.
\<close>

function innerLoop :: "config \<Rightarrow> star list \<Rightarrow> nat \<Rightarrow> nat \<Rightarrow> line list \<Rightarrow> line list" where
  "innerLoop cfg ss i j ls =
     (if j < length ss then
        (let dx = star_x (ss ! i) - star_x (ss ! j);
             dy = star_y (ss ! i) - star_y (ss ! j);
             distance = sqrt (dx * dx + dy * dy)
         in innerLoop cfg ss i (j + 1)
              (if distance < maxDistance cfg then ls @ [pushedLine cfg i j distance] else ls))
      else ls)"
  by pat_completeness auto
termination
  by (relation "measure (\<lambda>(cfg, ss, i, j, ls). length ss - j)") auto

declare innerLoop.simps [simp del]

text \<open>The outer loop, from \<open>i\<close> on.\<close>

function outerLoop :: "config \<Rightarrow> star list \<Rightarrow> nat \<Rightarrow> line list \<Rightarrow> line list" where
  "outerLoop cfg ss i ls =
     (if i < length ss then outerLoop cfg ss (i + 1) (innerLoop cfg ss i (i + 1) ls)
      else ls)"
  by pat_completeness auto
termination
  by (relation "measure (\<lambda>(cfg, ss, i, ls). length ss - i)") auto

declare outerLoop.simps [simp del]

definition createLines :: "constellation \<Rightarrow> constellation" where
  "createLines c = c\<lparr>lines := outerLoop (config c) (stars c) 0 []\<rparr>"

subsection \<open>applyMouseInfluence\<close>

text \<open>The local constant \<open>force\<close>, for a star at the distance \<open>d\<close> from the pointer.\<close>

definition force :: "config \<Rightarrow> real \<Rightarrow> real" where
  "force cfg d = (mouseInfluence cfg - d) / mouseInfluence cfg"

text \<open>The body of the \<open>forEach\<close> for one star, the pointer being at \<open>(mx, my)\<close>.\<close>

definition influenceStar :: "config \<Rightarrow> real \<Rightarrow> real \<Rightarrow> star \<Rightarrow> star" where
  "influenceStar cfg mx my s =
     (let dx = mx - star_x s;
          dy = my - star_y s;
          distance = sqrt (dx * dx + dy * dy)
      in if distance < mouseInfluence cfg then
           s\<lparr>vx := vx s + dx * mouseForce cfg * force cfg distance,
             vy := vy s + dy * mouseForce cfg * force cfg distance\<rparr>
         else s)"

definition applyMouseInfluence :: "constellation \<Rightarrow> constellation" where
  "applyMouseInfluence c =
     c\<lparr>stars := map (influenceStar (config c) (mouse_x c) (mouse_y c)) (stars c)\<rparr>"

subsection \<open>Frames, events and the constructor\<close>

text \<open>
  One call of \<open>animate\<close>, up to the request for the next frame: \<open>updateStars\<close>,
  \<open>createLines\<close>, \<open>applyMouseInfluence\<close>; \<open>draw\<close> changes nothing of the state.
\<close>

definition animate :: "(nat \<Rightarrow> real) \<Rightarrow> constellation \<Rightarrow> constellation" where
  "animate rnd c = applyMouseInfluence (createLines (updateStars rnd c))"

definition resizeCanvas :: "real \<Rightarrow> real \<Rightarrow> constellation \<Rightarrow> constellation" where
  "resizeCanvas innerWidth innerHeight c = c\<lparr>width := innerWidth, height := innerHeight\<rparr>"

text \<open>
  What the browser can do to a running instance: call \<open>animate\<close> for the next frame, or
  one of the listeners of \<open>bindEvents\<close>. \<open>TouchMove\<close> carries the client coordinates of
  the first touch (a \<open>touchmove\<close> event has one), \<open>Resize\<close> the new inner size of the
  window. Every operation that draws random numbers gets draws of its own.
\<close>

datatype event =
    Frame "nat \<Rightarrow> real"
  | Resize real real "nat \<Rightarrow> real"
  | MouseMove real real
  | TouchMove real real
  | MouseLeave

fun handle :: "event \<Rightarrow> constellation \<Rightarrow> constellation option" where
  "handle (Frame rnd) c = Some (animate rnd c)"
| "handle (Resize w h rnd) c = createStars rnd (resizeCanvas w h c)"
| "handle (MouseMove clientX clientY) c = Some (c\<lparr>mouse_x := clientX, mouse_y := clientY\<rparr>)"
| "handle (TouchMove clientX clientY) c = Some (c\<lparr>mouse_x := clientX, mouse_y := clientY\<rparr>)"
| "handle MouseLeave c = Some (c\<lparr>mouse_x := 0, mouse_y := 0\<rparr>)"

fun run :: "event list \<Rightarrow> constellation \<Rightarrow> constellation option" where
  "run [] c = Some c"
| "run (e # es) c = (case handle e c of None \<Rightarrow> None | Some c' \<Rightarrow> run es c')"

text \<open>
  The constructor followed by \<open>init\<close>, in a window of the given inner size:
  \<open>resizeCanvas\<close>, \<open>createStars\<close> and the first \<open>animate\<close>.
\<close>

definition new_Constellation ::
    "real \<Rightarrow> real \<Rightarrow> (nat \<Rightarrow> real) \<Rightarrow> (nat \<Rightarrow> real) \<Rightarrow> constellation option" where
  "new_Constellation innerWidth innerHeight rnd0 rnd1 =
     run [Resize innerWidth innerHeight rnd0, Frame rnd1]
       \<lparr>stars = [], lines = [], mouse_x = 0, mouse_y = 0, width = 0, height = 0,
        config = default_config\<rparr>"

subsection \<open>The properties, as predicates\<close>

text \<open>The Euclidean distance between two stars, as \<open>createLines\<close> computes it.\<close>

definition euclideanDistance :: "star \<Rightarrow> star \<Rightarrow> real" where
  "euclideanDistance a b =
     sqrt ((star_x a - star_x b) * (star_x a - star_x b) +
           (star_y a - star_y b) * (star_y a - star_y b))"

text \<open>The distance from the pointer at \<open>(mx, my)\<close> to a star, as \<open>applyMouseInfluence\<close> computes it.\<close>

definition pointerDistance :: "real \<Rightarrow> real \<Rightarrow> star \<Rightarrow> real" where
  "pointerDistance mx my s =
     sqrt ((mx - star_x s) * (mx - star_x s) + (my - star_y s) * (my - star_y s))"

text \<open>The distance from the pointer of a state to its star \<open>k\<close>.\<close>

abbreviation distanceToPointer :: "constellation \<Rightarrow> nat \<Rightarrow> real" where
  "distanceToPointer c k \<equiv> pointerDistance (mouse_x c) (mouse_y c) (stars c ! k)"

text \<open>The two stars a line joins.\<close>

definition endpoints :: "line \<Rightarrow> nat \<times> nat" where
  "endpoints l = (line_start l, line_end l)"

text \<open>Every star is on the canvas, its right and lower edges included.\<close>

definition on_canvas :: "constellation \<Rightarrow> bool" where
  "on_canvas c \<longleftrightarrow>
     list_all (\<lambda>s. 0 \<le> star_x s \<and> star_x s \<le> width c \<and> 0 \<le> star_y s \<and> star_y s \<le> height c)
       (stars c)"

text \<open>Every star is inside the half-open rectangle \<open>[0, width) \<times> [0, height)\<close>.\<close>

definition inside_half_open :: "constellation \<Rightarrow> bool" where
  "inside_half_open c \<longleftrightarrow>
     list_all (\<lambda>s. 0 \<le> star_x s \<and> star_x s < width c \<and> 0 \<le> star_y s \<and> star_y s < height c)
       (stars c)"

text \<open>
  The events a browser produces: the draws of \<open>Math.random()\<close> are in \<open>[0, 1)\<close>, and the
  inner size of a window is not negative.
\<close>

fun admissible :: "event \<Rightarrow> bool" where
  "admissible (Frame rnd) = unit_draws rnd"
| "admissible (Resize w h rnd) = (0 \<le> w \<and> 0 \<le> h \<and> unit_draws rnd)"
| "admissible (MouseMove clientX clientY) = True"
| "admissible (TouchMove clientX clientY) = True"
| "admissible MouseLeave = True"

text \<open>The events that keep the stars: all but \<open>Resize\<close>, which creates them anew.\<close>

fun keeps_stars :: "event \<Rightarrow> bool" where
  "keeps_stars (Resize w h rnd) = False"
| "keeps_stars (Frame rnd) = True"
| "keeps_stars (MouseMove clientX clientY) = True"
| "keeps_stars (TouchMove clientX clientY) = True"
| "keeps_stars MouseLeave = True"

text \<open>
  The length of the velocity that \<open>applyMouseInfluence\<close> adds to a star, the pointer
  being at \<open>(mx, my)\<close>.
\<close>

definition addedSpeed :: "config \<Rightarrow> real \<Rightarrow> real \<Rightarrow> star \<Rightarrow> real" where
  "addedSpeed cfg mx my s =
     sqrt ((vx (influenceStar cfg mx my s) - vx s) * (vx (influenceStar cfg mx my s) - vx s) +
           (vy (influenceStar cfg mx my s) - vy s) * (vy (influenceStar cfg mx my s) - vy s))"

text \<open>Two stars of an array are near each other; the line \<open>createLines\<close> pushes for them.\<close>

definition near :: "config \<Rightarrow> star list \<Rightarrow> nat \<Rightarrow> nat \<Rightarrow> bool" where
  "near cfg ss i j \<longleftrightarrow> euclideanDistance (ss ! i) (ss ! j) < maxDistance cfg"

definition lineOf :: "config \<Rightarrow> star list \<Rightarrow> nat \<Rightarrow> nat \<Rightarrow> line" where
  "lineOf cfg ss i j = pushedLine cfg i j (euclideanDistance (ss ! i) (ss ! j))"

text \<open>
  Sample data: a star with the given position and velocity, a field of stars in a
  window of 800 by 600 with the pointer at \<open>(mx, my)\<close>, and a window of 100 by 100
  before its stars are created.
\<close>

definition sample_star :: "real \<Rightarrow> real \<Rightarrow> real \<Rightarrow> real \<Rightarrow> star" where
  "sample_star x y v u =
     \<lparr>star_x = x, star_y = y, star_size = 1, star_opacity = 0.2,
      vx = v, vy = u, originalVx = - 0.3, originalVy = - 0.3\<rparr>"

definition sample_field :: "star list \<Rightarrow> real \<Rightarrow> real \<Rightarrow> constellation" where
  "sample_field ss mx my =
     \<lparr>stars = ss, lines = [], mouse_x = mx, mouse_y = my, width = 800, height = 600,
      config = default_config\<rparr>"

definition small_window :: constellation where
  "small_window =
     \<lparr>stars = [], lines = [], mouse_x = 0, mouse_y = 0, width = 100, height = 100,
      config = default_config\<rparr>"

text \<open>Sample draws: all \<open>0\<close>, and all \<open>1/2\<close>.\<close>

definition draws_zero :: "nat \<Rightarrow> real" where
  "draws_zero i = 0"

definition draws_half :: "nat \<Rightarrow> real" where
  "draws_half i = 1 / 2"

text \<open>The positions of the stars, in the order of the array.\<close>

definition positions :: "constellation \<Rightarrow> (real \<times> real) list" where
  "positions c = map (\<lambda>s. (star_x s, star_y s)) (stars c)"

text \<open>
  What every event of \<open>admissible\<close> keeps: a window that is not negative in either
  direction, a \<open>starDensity\<close> other than zero, and the stars on the canvas.
\<close>

definition steady :: "constellation \<Rightarrow> bool" where
  "steady c \<longleftrightarrow>
     0 \<le> width c \<and> 0 \<le> height c \<and> starDensity (config c) \<noteq> 0 \<and> on_canvas c"

section \<open>What each operation changes\<close>

lemma length_updateStars: "length (stars (updateStars rnd c)) = length (stars c)"
  by (simp add: updateStars_def)

lemma nth_updateStars:
  "k < length (stars c) \<Longrightarrow>
   stars (updateStars rnd c) ! k = updateStar (width c) (height c) (config c) (rnd k) (stars c ! k)"
  by (simp add: updateStars_def nth_enumerate_eq)

lemma updateStars_frame:
  "width (updateStars rnd c) = width c" "height (updateStars rnd c) = height c"
  "config (updateStars rnd c) = config c" "mouse_x (updateStars rnd c) = mouse_x c"
  "mouse_y (updateStars rnd c) = mouse_y c"
  by (simp_all add: updateStars_def)

lemma createLines_frame:
  "stars (createLines c) = stars c"
  "width (createLines c) = width c" "height (createLines c) = height c"
  "config (createLines c) = config c" "mouse_x (createLines c) = mouse_x c"
  "mouse_y (createLines c) = mouse_y c"
  by (simp_all add: createLines_def)

lemma applyMouseInfluence_frame:
  "lines (applyMouseInfluence c) = lines c"
  "width (applyMouseInfluence c) = width c" "height (applyMouseInfluence c) = height c"
  "config (applyMouseInfluence c) = config c" "mouse_x (applyMouseInfluence c) = mouse_x c"
  "mouse_y (applyMouseInfluence c) = mouse_y c"
  by (simp_all add: applyMouseInfluence_def)

lemma animate_frame:
  "width (animate rnd c) = width c" "height (animate rnd c) = height c"
  "config (animate rnd c) = config c" "mouse_x (animate rnd c) = mouse_x c"
  "mouse_y (animate rnd c) = mouse_y c"
  by (simp_all add: animate_def applyMouseInfluence_frame createLines_frame updateStars_frame)

lemma length_animate: "length (stars (animate rnd c)) = length (stars c)"
  by (simp add: animate_def applyMouseInfluence_def createLines_frame length_updateStars)

lemma nth_animate:
  "k < length (stars c) \<Longrightarrow>
   stars (animate rnd c) ! k =
     influenceStar (config c) (mouse_x c) (mouse_y c)
       (updateStar (width c) (height c) (config c) (rnd k) (stars c ! k))"
  by (simp add: animate_def applyMouseInfluence_def createLines_frame updateStars_frame
      length_updateStars nth_updateStars)

lemma influenceStar_frame:
  "star_x (influenceStar cfg mx my s) = star_x s"
  "star_y (influenceStar cfg mx my s) = star_y s"
  "star_size (influenceStar cfg mx my s) = star_size s"
  "star_opacity (influenceStar cfg mx my s) = star_opacity s"
  "originalVx (influenceStar cfg mx my s) = originalVx s"
  "originalVy (influenceStar cfg mx my s) = originalVy s"
  by (simp_all add: influenceStar_def Let_def)

lemma updateStar_opacity:
  "star_opacity (updateStar w h cfg r s) =
     max (opacity_min cfg) (min (opacity_max cfg) (star_opacity s + (r - 0.5) * 0.02))"
  by (simp add: updateStar_def Let_def)

lemma updateStar_original:
  "originalVx (updateStar w h cfg r s) = originalVx s"
  "originalVy (updateStar w h cfg r s) = originalVy s"
  by (simp_all add: updateStar_def Let_def)

lemma updateStar_bounds:
  assumes "0 \<le> w" "0 \<le> h"
  shows "0 \<le> star_x (updateStar w h cfg r s) \<and> star_x (updateStar w h cfg r s) \<le> w \<and>
         0 \<le> star_y (updateStar w h cfg r s) \<and> star_y (updateStar w h cfg r s) \<le> h"
  using assms by (simp add: updateStar_def Let_def)

section \<open>The loops of createLines\<close>

lemma innerLoop_step:
  "j < length ss \<Longrightarrow>
   innerLoop cfg ss i j ls =
     innerLoop cfg ss i (j + 1) (if near cfg ss i j then ls @ [lineOf cfg ss i j] else ls)"
  by (subst innerLoop.simps) (simp add: near_def lineOf_def euclideanDistance_def Let_def)

lemma innerLoop_done: "\<not> j < length ss \<Longrightarrow> innerLoop cfg ss i j ls = ls"
  by (subst innerLoop.simps) simp

lemma innerLoop_eq:
  "innerLoop cfg ss i j ls =
     ls @ map (lineOf cfg ss i) (filter (near cfg ss i) [j..<length ss])"
proof (induction "length ss - j" arbitrary: j ls)
  case 0
  then show ?case by (simp add: innerLoop_done)
next
  case (Suc n)
  then have j: "j < length ss" and n: "n = length ss - (j + 1)"
    by simp_all
  have u: "[j..<length ss] = j # [j + 1..<length ss]"
    using j by (simp add: upt_conv_Cons)
  show ?case
    unfolding innerLoop_step[OF j] Suc.hyps(1)[OF n] u by simp
qed

lemma outerLoop_step:
  "i < length ss \<Longrightarrow>
   outerLoop cfg ss i ls = outerLoop cfg ss (i + 1) (innerLoop cfg ss i (i + 1) ls)"
  by (subst outerLoop.simps) simp

lemma outerLoop_done: "\<not> i < length ss \<Longrightarrow> outerLoop cfg ss i ls = ls"
  by (subst outerLoop.simps) simp


lemma outerLoop_eq:
  "outerLoop cfg ss i ls =
     ls @ concat (map (\<lambda>i. map (lineOf cfg ss i) (filter (near cfg ss i) [i + 1..<length ss]))
                   [i..<length ss])"
proof (induction "length ss - i" arbitrary: i ls)
  case 0
  then show ?case by (simp add: outerLoop_done)
next
  case (Suc n)
  then have i: "i < length ss" and n: "n = length ss - (i + 1)"
    by simp_all
  have u: "[i..<length ss] = i # [i + 1..<length ss]"
    using i by (simp add: upt_conv_Cons)
  show ?case
    unfolding outerLoop_step[OF i] Suc.hyps(1)[OF n] u innerLoop_eq by simp
qed

lemma endpoints_lineOf: "endpoints (lineOf cfg ss i j) = (i, j)"
  by (simp add: endpoints_def lineOf_def pushedLine_def)

lemma endpoints_outerLoop:
  "map endpoints (outerLoop cfg ss 0 []) =
     concat (map (\<lambda>i. map (Pair i) (filter (near cfg ss i) [i + 1..<length ss])) [0..<length ss])"
  by (simp add: outerLoop_eq map_concat comp_def endpoints_lineOf)

lemma distinct_rows:
  "distinct is \<Longrightarrow> (\<forall>i\<in>set is. distinct (f i)) \<Longrightarrow>
   distinct (concat (map (\<lambda>i. map (Pair i) (f i)) is))"
  by (induction "is") (auto simp: distinct_map inj_on_def)

lemma distinct_endpoints_outerLoop: "distinct (map endpoints (outerLoop cfg ss 0 []))"
  unfolding endpoints_outerLoop by (rule distinct_rows) simp_all

lemma set_endpoints_outerLoop:
  "set (map endpoints (outerLoop cfg ss 0 [])) =
     {(i, j). i < j \<and> j < length ss \<and> near cfg ss i j}"
  unfolding endpoints_outerLoop by (auto simp: image_iff intro: rev_bexI)

section \<open>Positions\<close>

lemma pushStars_map: "pushStars w h cfg rnd n = map (pushedStar w h cfg rnd) [0..<n]"
  by (induction n) simp_all

lemma length_pushStars: "length (pushStars w h cfg rnd n) = n"
  by (simp add: pushStars_map)

lemma numStars_Some:
  "starDensity (config c) \<noteq> 0 \<Longrightarrow>
   numStars c = Some (nat \<lfloor>width c * height c / starDensity (config c)\<rfloor>)"
  by (simp add: numStars_def Let_def)

lemma createStars_Some:
  "starDensity (config c) \<noteq> 0 \<Longrightarrow>
   createStars rnd c =
     Some (c\<lparr>stars := map (\<lambda>i. storeOriginal (pushedStar (width c) (height c) (config c) rnd i))
                            [0..<nat \<lfloor>width c * height c / starDensity (config c)\<rfloor>]\<rparr>)"
  by (simp add: createStars_def numStars_Some pushStars_map comp_def)

lemma pushedStar_on_canvas:
  assumes "0 \<le> w" "0 \<le> h" "unit_draws rnd"
  shows "0 \<le> star_x (storeOriginal (pushedStar w h cfg rnd i)) \<and>
         star_x (storeOriginal (pushedStar w h cfg rnd i)) \<le> w \<and>
         0 \<le> star_y (storeOriginal (pushedStar w h cfg rnd i)) \<and>
         star_y (storeOriginal (pushedStar w h cfg rnd i)) \<le> h"
proof -
  have "0 \<le> rnd (6 * i)" "rnd (6 * i) \<le> 1" "0 \<le> rnd (6 * i + 1)" "rnd (6 * i + 1) \<le> 1"
    using assms(3) by (simp_all add: unit_draws_def less_imp_le)
  then show ?thesis
    using assms(1,2) by (simp add: storeOriginal_def pushedStar_def mult_left_le_one_le)
qed

lemma createStars_on_canvas:
  assumes "0 \<le> width c" "0 \<le> height c" "starDensity (config c) \<noteq> 0" "unit_draws rnd"
  shows "\<exists>c'. createStars rnd c = Some c' \<and> on_canvas c' \<and>
           width c' = width c \<and> height c' = height c \<and> config c' = config c"
  using assms
  by (simp add: createStars_Some on_canvas_def list_all_iff pushedStar_on_canvas)

lemma animate_on_canvas:
  assumes "0 \<le> width c" "0 \<le> height c"
  shows "on_canvas (animate rnd c)"
proof -
  have "0 \<le> star_x s \<and> star_x s \<le> width c \<and> 0 \<le> star_y s \<and> star_y s \<le> height c"
    if "s \<in> set (stars (animate rnd c))" for s
  proof -
    from that obtain k where k: "k < length (stars c)" and s: "s = stars (animate rnd c) ! k"
      by (auto simp: in_set_conv_nth length_animate)
    show ?thesis
      unfolding s nth_animate[OF k] influenceStar_frame
      by (rule updateStar_bounds[OF assms])
  qed
  then show ?thesis
    by (simp add: on_canvas_def list_all_iff animate_frame)
qed

lemma handle_steady:
  assumes "admissible e" "steady c"
  shows "\<exists>c'. handle e c = Some c' \<and> steady c'"
proof (cases e)
  case (Frame rnd)
  then show ?thesis
    using assms(2) by (simp add: steady_def animate_on_canvas animate_frame)
next
  case (Resize w h rnd)
  with assms(1) have "0 \<le> width (resizeCanvas w h c)" "0 \<le> height (resizeCanvas w h c)"
    "unit_draws rnd"
    by (simp_all add: resizeCanvas_def)
  moreover have "starDensity (config (resizeCanvas w h c)) \<noteq> 0"
    using assms(2) by (simp add: steady_def resizeCanvas_def)
  ultimately obtain c' where "createStars rnd (resizeCanvas w h c) = Some c'" "on_canvas c'"
    "width c' = width (resizeCanvas w h c)" "height c' = height (resizeCanvas w h c)"
    "config c' = config (resizeCanvas w h c)"
    using createStars_on_canvas by blast
  then show ?thesis
    using Resize assms by (simp add: steady_def resizeCanvas_def)
next
  case (MouseMove a b)
  then show ?thesis using assms(2) by (simp add: steady_def on_canvas_def)
next
  case (TouchMove a b)
  then show ?thesis using assms(2) by (simp add: steady_def on_canvas_def)
next
  case MouseLeave
  then show ?thesis using assms(2) by (simp add: steady_def on_canvas_def)
qed

lemma run_steady:
  "list_all admissible evs \<Longrightarrow> steady c \<Longrightarrow> \<exists>c'. run evs c = Some c' \<and> steady c'"
proof (induction evs arbitrary: c)
  case Nil
  then show ?case by simp
next
  case (Cons e evs)
  then obtain c1 where c1: "handle e c = Some c1" "steady c1"
    using handle_steady[of e c] by auto
  with Cons show ?case by simp
qed

lemma updateStar_position:
  "star_x (updateStar w h cfg r s) =
     (if star_x s + vx s < 0 then w else if w < star_x s + vx s then 0 else star_x s + vx s)"
  "star_y (updateStar w h cfg r s) =
     (if star_y s + vy s < 0 then h else if h < star_y s + vy s then 0 else star_y s + vy s)"
  by (simp_all add: updateStar_def Let_def)

lemma animate_position:
  assumes "k < length (stars c)"
  shows "star_x (stars (animate rnd c) ! k) =
           (if star_x (stars c ! k) + vx (stars c ! k) < 0 then width c
            else if width c < star_x (stars c ! k) + vx (stars c ! k) then 0
            else star_x (stars c ! k) + vx (stars c ! k))"
    and "star_y (stars (animate rnd c) ! k) =
           (if star_y (stars c ! k) + vy (stars c ! k) < 0 then height c
            else if height c < star_y (stars c ! k) + vy (stars c ! k) then 0
            else star_y (stars c ! k) + vy (stars c ! k))"
  by (simp_all only: nth_animate[OF assms] influenceStar_frame updateStar_position)

text \<open>
  C1, as amended. Take any state with a window that is not negative in either direction
  and a \<open>starDensity\<close> other than zero, create its stars, and let any admissible events
  follow: frames, pointer events, resizes. Every event returns, and at the end every
  star has \<open>0 \<le> x \<le> width\<close> and \<open>0 \<le> y \<le> height\<close>. The right and the lower edge
  are included, because of where the next frame, whatever its draws, puts each star:
  with \<open>x + vx\<close> the position after the move, at \<open>x = width\<close> when \<open>x + vx < 0\<close>, at
  \<open>x = 0\<close> when \<open>x + vx > width\<close>, and at \<open>x + vx\<close> otherwise; likewise for \<open>y\<close>, \<open>vy\<close>
  and \<open>height\<close>.
\<close>

theorem stars_stay_on_canvas:
  assumes "0 \<le> width c" and "0 \<le> height c" and "starDensity (config c) \<noteq> 0"
      and "unit_draws rnd" and "list_all admissible evs"
  shows "\<exists>c0 c'. createStars rnd c = Some c0 \<and> run evs c0 = Some c' \<and> on_canvas c'
           \<and> (\<forall>rnd' k. k < length (stars c') \<longrightarrow>
                 star_x (stars (animate rnd' c') ! k) =
                   (if star_x (stars c' ! k) + vx (stars c' ! k) < 0 then width c'
                    else if width c' < star_x (stars c' ! k) + vx (stars c' ! k) then 0
                    else star_x (stars c' ! k) + vx (stars c' ! k))
                 \<and> star_y (stars (animate rnd' c') ! k) =
                   (if star_y (stars c' ! k) + vy (stars c' ! k) < 0 then height c'
                    else if height c' < star_y (stars c' ! k) + vy (stars c' ! k) then 0
                    else star_y (stars c' ! k) + vy (stars c' ! k)))"
proof -
  obtain c0 where c0: "createStars rnd c = Some c0" "on_canvas c0" "width c0 = width c"
    "height c0 = height c" "config c0 = config c"
    using createStars_on_canvas[OF assms(1-4)] by blast
  with assms(1-3) have "steady c0"
    by (simp add: steady_def)
  from run_steady[OF assms(5) this] obtain c' where c': "run evs c0 = Some c'" "on_canvas c'"
    by (auto simp: steady_def)
  show ?thesis
    using c0(1) c' animate_position by blast
qed

theorem stars_stay_on_canvas_witness:
  "0 \<le> width small_window \<and> 0 \<le> height small_window
   \<and> starDensity (config small_window) \<noteq> 0
   \<and> unit_draws draws_zero
   \<and> list_all admissible [Frame draws_zero, MouseMove 5 5, Frame draws_half]
   \<and> (\<exists>c0 c'. createStars draws_zero small_window = Some c0
         \<and> run [Frame draws_zero, MouseMove 5 5, Frame draws_half] c0 = Some c'
         \<and> on_canvas c'
         \<and> (\<forall>rnd' k. k < length (stars c') \<longrightarrow>
                 star_x (stars (animate rnd' c') ! k) =
                   (if star_x (stars c' ! k) + vx (stars c' ! k) < 0 then width c'
                    else if width c' < star_x (stars c' ! k) + vx (stars c' ! k) then 0
                    else star_x (stars c' ! k) + vx (stars c' ! k))
                 \<and> star_y (stars (animate rnd' c') ! k) =
                   (if star_y (stars c' ! k) + vy (stars c' ! k) < 0 then height c'
                    else if height c' < star_y (stars c' ! k) + vy (stars c' ! k) then 0
                    else star_y (stars c' ! k) + vy (stars c' ! k))))"
proof -
  have h: "0 \<le> width small_window" "0 \<le> height small_window"
    "starDensity (config small_window) \<noteq> 0" "unit_draws draws_zero"
    "list_all admissible [Frame draws_zero, MouseMove 5 5, Frame draws_half]"
    by (simp_all add: small_window_def default_config_def unit_draws_def draws_zero_def
        draws_half_def)
  from stars_stay_on_canvas[OF h] h show ?thesis by blast
qed

text \<open>
  C1, as stated, fails. In a window of 100 by 100 with all draws \<open>0\<close> the one star is
  created at \<open>(0, 0)\<close> with the velocity \<open>(-0.6, -0.6)\<close>; the first frame moves it to
  \<open>(-0.6, -0.6)\<close> and the wraparound puts it at \<open>(100, 100)\<close>, where \<open>x < width\<close> and
  \<open>y < height\<close> are false.
\<close>

theorem leaves_half_open_rectangle:
  "map_option positions (new_Constellation 100 100 draws_zero draws_zero) = Some [(100, 100)]
   \<and> map_option width (new_Constellation 100 100 draws_zero draws_zero) = Some 100
   \<and> map_option height (new_Constellation 100 100 draws_zero draws_zero) = Some 100
   \<and> map_option inside_half_open (new_Constellation 100 100 draws_zero draws_zero) = Some False"
  by (simp add: new_Constellation_def resizeCanvas_def createStars_def numStars_def Let_def
      default_config_def pushedStar_def storeOriginal_def draws_zero_def
      animate_def updateStars_def updateStar_def createLines_def applyMouseInfluence_def
      influenceStar_def positions_def inside_half_open_def)

section \<open>Lines\<close>

lemma lines_animate:
  "lines (animate rnd c) = outerLoop (config c) (stars (updateStars rnd c)) 0 []"
  by (simp add: animate_def applyMouseInfluence_frame createLines_def updateStars_frame)

lemma stars_animate:
  "stars (animate rnd c) =
     map (influenceStar (config c) (mouse_x c) (mouse_y c)) (stars (updateStars rnd c))"
  by (simp add: animate_def applyMouseInfluence_def createLines_frame updateStars_frame)

lemma euclideanDistance_influenceStar:
  "euclideanDistance (influenceStar cfg mx my a) (influenceStar cfg mx my b) =
     euclideanDistance a b"
  by (simp add: euclideanDistance_def influenceStar_frame)

lemma near_animate:
  assumes "i < length (stars c)" "j < length (stars c)"
  shows "euclideanDistance (stars (animate rnd c) ! i) (stars (animate rnd c) ! j) =
         euclideanDistance (stars (updateStars rnd c) ! i) (stars (updateStars rnd c) ! j)"
  using assms
  by (simp add: stars_animate length_updateStars euclideanDistance_influenceStar)

lemma line_in_outerLoop:
  assumes "l \<in> set (outerLoop cfg ss 0 [])"
  shows "\<exists>i j. i < j \<and> j < length ss \<and> near cfg ss i j \<and> l = lineOf cfg ss i j"
proof -
  from assms obtain i j where "i \<in> set [0..<length ss]"
    "j \<in> set (filter (near cfg ss i) [i + 1..<length ss])" "l = lineOf cfg ss i j"
    by (auto simp: outerLoop_eq)
  then have "i < j \<and> j < length ss \<and> near cfg ss i j \<and> l = lineOf cfg ss i j"
    by simp
  then show ?thesis by blast
qed

lemma euclideanDistance_nonneg: "0 \<le> euclideanDistance a b"
  by (simp add: euclideanDistance_def)

lemma sqrt_2500: "sqrt 2500 = 50"
  by (rule real_sqrt_unique) simp_all

text \<open>
  C2. After a frame, the lines join exactly the pairs of stars \<open>(i, j)\<close> with \<open>i < j\<close>
  whose Euclidean distance is below \<open>maxDistance\<close>, each pair once: the list of the
  endpoints has no duplicate, and as a set it is the set of these pairs. No line joins a
  star to itself, since \<open>i < j\<close>.
\<close>

theorem edges_exact:
  "distinct (map endpoints (lines (animate rnd c))) \<and>
   set (map endpoints (lines (animate rnd c))) =
     {(i, j). i < j \<and> j < length (stars (animate rnd c)) \<and>
        euclideanDistance (stars (animate rnd c) ! i) (stars (animate rnd c) ! j)
          < maxDistance (config (animate rnd c))}"
proof -
  have "set (map endpoints (lines (animate rnd c))) =
     {(i, j). i < j \<and> j < length (stars (updateStars rnd c)) \<and>
        near (config c) (stars (updateStars rnd c)) i j}"
    unfolding lines_animate by (rule set_endpoints_outerLoop)
  also have "\<dots> = {(i, j). i < j \<and> j < length (stars (animate rnd c)) \<and>
        euclideanDistance (stars (animate rnd c) ! i) (stars (animate rnd c) ! j)
          < maxDistance (config (animate rnd c))}"
    by (auto simp: near_def near_animate length_animate length_updateStars animate_frame)
  finally show ?thesis
    unfolding lines_animate using distinct_endpoints_outerLoop by simp
qed

text \<open>
  C3. Every line of a frame joins two stars at a distance \<open>d\<close> with
  \<open>0 \<le> d < maxDistance\<close>, stores \<open>d\<close>, and has the opacity
  \<open>(maxDistance - d) / maxDistance * 0.5\<close>.
\<close>

theorem edge_opacity:
  assumes "l \<in> set (lines (animate rnd c))"
  shows "line_start l < line_end l \<and> line_end l < length (stars (animate rnd c))
         \<and> line_distance l =
             euclideanDistance (stars (animate rnd c) ! line_start l)
               (stars (animate rnd c) ! line_end l)
         \<and> 0 \<le> line_distance l \<and> line_distance l < maxDistance (config c)
         \<and> line_opacity l =
             (maxDistance (config c) - line_distance l) / maxDistance (config c) * 0.5"
proof -
  let ?ss = "stars (updateStars rnd c)"
  from assms obtain i j where ij: "i < j" "j < length ?ss" "near (config c) ?ss i j"
    and l: "l = lineOf (config c) ?ss i j"
    unfolding lines_animate using line_in_outerLoop by blast
  have d: "line_distance l = euclideanDistance (?ss ! i) (?ss ! j)"
    and e: "line_start l = i" "line_end l = j"
    and o: "line_opacity l =
             (maxDistance (config c) - line_distance l) / maxDistance (config c) * 0.5"
    by (simp_all add: l lineOf_def pushedLine_def)
  from ij have len: "i < length (stars c)" "j < length (stars c)"
    by (simp_all add: length_updateStars)
  show ?thesis
    using ij d o len unfolding e
    by (simp add: near_def near_animate length_animate euclideanDistance_nonneg)
qed

theorem edge_opacity_witness:
  "\<lparr>line_start = 0, line_end = 1, line_opacity = 4 / 13, line_distance = 50\<rparr>
     \<in> set (lines (animate draws_half (sample_field [sample_star 0 0 0 0, sample_star 30 40 0 0] 0 0)))
   \<and> euclideanDistance
        (stars (animate draws_half (sample_field [sample_star 0 0 0 0, sample_star 30 40 0 0] 0 0)) ! 0)
        (stars (animate draws_half (sample_field [sample_star 0 0 0 0, sample_star 30 40 0 0] 0 0)) ! 1) = 50
   \<and> (maxDistance default_config - 50) / maxDistance default_config * 0.5 = 4 / 13"
proof -
  let ?c = "sample_field [sample_star 0 0 0 0, sample_star 30 40 0 0] 0 0"
  let ?l = "\<lparr>line_start = 0, line_end = 1, line_opacity = 4 / 13, line_distance = 50\<rparr>"
  have ss: "stars (updateStars draws_half ?c) =
     [sample_star 0 0 (- 0.003) (- 0.003), sample_star 30 40 (- 0.003) (- 0.003)]"
    by (simp add: updateStars_def updateStar_def sample_field_def sample_star_def
        default_config_def draws_half_def)
  have m: "?l \<in> set (lines (animate draws_half ?c))"
    unfolding lines_animate ss
    by (simp add: outerLoop_eq near_def lineOf_def pushedLine_def euclideanDistance_def
        sample_field_def sample_star_def default_config_def sqrt_2500)
  from edge_opacity[OF m] m show ?thesis
    by (simp add: sample_field_def default_config_def)
qed

section \<open>Opacity\<close>

text \<open>
  C7. After a frame the opacity of every star is between \<open>opacity.min\<close> and
  \<open>opacity.max\<close>, whatever it was before: the frame adds \<open>(r - 0.5) * 0.02\<close> for the
  draw \<open>r\<close> of the star, a value from \<open>-0.01\<close> up to but not including \<open>0.01\<close>, and
  clamps the sum.
\<close>

theorem opacity_clamped:
  assumes "opacity_min (config c) \<le> opacity_max (config c)"
      and "unit_draws rnd"
      and "k < length (stars c)"
  shows "star_opacity (stars (animate rnd c) ! k) =
           max (opacity_min (config c))
             (min (opacity_max (config c)) (star_opacity (stars c ! k) + (rnd k - 0.5) * 0.02))
         \<and> - 0.01 \<le> (rnd k - 0.5) * 0.02 \<and> (rnd k - 0.5) * 0.02 < 0.01
         \<and> opacity_min (config c) \<le> star_opacity (stars (animate rnd c) ! k)
         \<and> star_opacity (stars (animate rnd c) ! k) \<le> opacity_max (config c)"
proof -
  have r: "0 \<le> rnd k" "rnd k < 1"
    using assms(2) by (simp_all add: unit_draws_def)
  have o: "star_opacity (stars (animate rnd c) ! k) =
           max (opacity_min (config c))
             (min (opacity_max (config c)) (star_opacity (stars c ! k) + (rnd k - 0.5) * 0.02))"
    using assms(3) by (simp add: nth_animate influenceStar_frame updateStar_opacity)
  from r have d: "- 0.01 \<le> (rnd k - 0.5) * 0.02" "(rnd k - 0.5) * 0.02 < 0.01"
    by simp_all
  from assms(1) have "opacity_min (config c) \<le> star_opacity (stars (animate rnd c) ! k)"
    "star_opacity (stars (animate rnd c) ! k) \<le> opacity_max (config c)"
    unfolding o by simp_all
  with o d show ?thesis by simp
qed

theorem opacity_clamped_witness:
  "opacity_min (config (sample_field [sample_star 10 10 0 0] 0 0))
     \<le> opacity_max (config (sample_field [sample_star 10 10 0 0] 0 0))
   \<and> unit_draws (\<lambda>i. 0)
   \<and> 0 < length (stars (sample_field [sample_star 10 10 0 0] 0 0))
   \<and> star_opacity (stars (animate (\<lambda>i. 0) (sample_field [sample_star 10 10 0 0] 0 0)) ! 0) = 0.2"
  using opacity_clamped [of "sample_field [sample_star 10 10 0 0] 0 0" "\<lambda>i. 0" 0]
  by (simp add: sample_field_def sample_star_def default_config_def unit_draws_def)

section \<open>The pull of the pointer\<close>

lemma pointerDistance_nonneg: "0 \<le> pointerDistance mx my s"
  by (simp add: pointerDistance_def)

lemma influenceStar_outside:
  "mouseInfluence cfg \<le> pointerDistance mx my s \<Longrightarrow> influenceStar cfg mx my s = s"
  by (simp add: influenceStar_def pointerDistance_def Let_def)

lemma influenceStar_inside:
  "pointerDistance mx my s < mouseInfluence cfg \<Longrightarrow>
   influenceStar cfg mx my s =
     s\<lparr>vx := vx s + (mx - star_x s) * mouseForce cfg * force cfg (pointerDistance mx my s),
       vy := vy s + (my - star_y s) * mouseForce cfg * force cfg (pointerDistance mx my s)\<rparr>"
  by (simp add: influenceStar_def pointerDistance_def Let_def)

lemma addedSpeed_outside:
  "mouseInfluence cfg \<le> pointerDistance mx my s \<Longrightarrow> addedSpeed cfg mx my s = 0"
  by (simp add: addedSpeed_def influenceStar_outside)

lemma force_inside:
  assumes "d < mouseInfluence cfg" "0 \<le> d"
  shows "0 < force cfg d" "force cfg d \<le> 1"
  using assms by (simp_all add: force_def)

lemma addedSpeed_inside:
  assumes "pointerDistance mx my s < mouseInfluence cfg"
  shows "addedSpeed cfg mx my s =
           pointerDistance mx my s * \<bar>mouseForce cfg\<bar> * force cfg (pointerDistance mx my s)"
proof -
  let ?d = "pointerDistance mx my s"
  let ?k = "mouseForce cfg * force cfg ?d"
  have f: "0 < force cfg ?d"
    using assms pointerDistance_nonneg by (rule force_inside)
  have "addedSpeed cfg mx my s =
          sqrt (((mx - star_x s) * ?k) * ((mx - star_x s) * ?k) +
                ((my - star_y s) * ?k) * ((my - star_y s) * ?k))"
    by (simp add: addedSpeed_def influenceStar_inside[OF assms] mult.assoc)
  also have "\<dots> = sqrt (((mx - star_x s) * (mx - star_x s) + (my - star_y s) * (my - star_y s))
                        * (?k * ?k))"
    by (simp add: algebra_simps)
  also have "\<dots> = ?d * \<bar>?k\<bar>"
    by (simp add: real_sqrt_mult pointerDistance_def)
  also have "\<dots> = ?d * \<bar>mouseForce cfg\<bar> * force cfg ?d"
    using f by (simp add: abs_mult)
  finally show ?thesis .
qed

lemma sqrt_100: "sqrt 100 = 10"
  by (rule real_sqrt_unique) simp_all

lemma sample_distances:
  "pointerDistance 0 0 (sample_star 10 0 0 0) = 10"
  "pointerDistance 0 0 (sample_star 50 0 0 0) = 50"
  by (simp_all add: pointerDistance_def sample_star_def sqrt_100 sqrt_2500)

lemma nth_applyMouseInfluence:
  "k < length (stars c) \<Longrightarrow>
   stars (applyMouseInfluence c) ! k =
     influenceStar (config c) (mouse_x c) (mouse_y c) (stars c ! k)"
  by (simp add: applyMouseInfluence_def)

lemma sqrt_10000: "sqrt 10000 = 100"
  by (rule real_sqrt_unique) simp_all

lemma applyMouseInfluence_inside:
  assumes "k < length (stars c)" and "distanceToPointer c k < mouseInfluence (config c)"
  shows "stars (applyMouseInfluence c) ! k =
           (stars c ! k)
             \<lparr>vx := vx (stars c ! k)
                + (mouse_x c - star_x (stars c ! k)) * mouseForce (config c)
                  * ((mouseInfluence (config c) - distanceToPointer c k) / mouseInfluence (config c)),
               vy := vy (stars c ! k)
                + (mouse_y c - star_y (stars c ! k)) * mouseForce (config c)
                  * ((mouseInfluence (config c) - distanceToPointer c k) / mouseInfluence (config c))\<rparr>"
  by (simp add: nth_applyMouseInfluence[OF assms(1)] influenceStar_inside[OF assms(2)] force_def)

lemma applyMouseInfluence_outside:
  assumes "k < length (stars c)" and "mouseInfluence (config c) \<le> distanceToPointer c k"
  shows "stars (applyMouseInfluence c) ! k = stars c ! k"
  by (simp add: nth_applyMouseInfluence[OF assms(1)] influenceStar_outside[OF assms(2)])

lemma factor_inside:
  fixes R d :: real
  assumes "0 \<le> d" and "d < R"
  shows "0 < (R - d) / R" and "(R - d) / R \<le> 1"
  using assms by simp_all

text \<open>
  C4, as amended. Take two stars \<open>i\<close> and \<open>j\<close> at the distances \<open>d1 < d2\<close> from the
  pointer, both below \<open>mouseInfluence\<close>. \<open>applyMouseInfluence\<close> adds to the velocity of
  each its displacement to the pointer times \<open>mouseForce\<close> times the factor
  \<open>(mouseInfluence - d) / mouseInfluence\<close> of its distance \<open>d\<close>, and the factor of the
  closer star is at least that of the farther one, both being in \<open>(0, 1]\<close>. Nothing is
  said of the lengths of the two added velocities, which grow with the displacement too.
\<close>

theorem closer_star_stronger_pull:
  assumes "i < length (stars c)" and "j < length (stars c)"
      and "distanceToPointer c i < distanceToPointer c j"
      and "distanceToPointer c j < mouseInfluence (config c)"
  shows "stars (applyMouseInfluence c) ! i =
           (stars c ! i)
             \<lparr>vx := vx (stars c ! i)
                + (mouse_x c - star_x (stars c ! i)) * mouseForce (config c)
                  * ((mouseInfluence (config c) - distanceToPointer c i) / mouseInfluence (config c)),
               vy := vy (stars c ! i)
                + (mouse_y c - star_y (stars c ! i)) * mouseForce (config c)
                  * ((mouseInfluence (config c) - distanceToPointer c i) / mouseInfluence (config c))\<rparr>
         \<and> stars (applyMouseInfluence c) ! j =
           (stars c ! j)
             \<lparr>vx := vx (stars c ! j)
                + (mouse_x c - star_x (stars c ! j)) * mouseForce (config c)
                  * ((mouseInfluence (config c) - distanceToPointer c j) / mouseInfluence (config c)),
               vy := vy (stars c ! j)
                + (mouse_y c - star_y (stars c ! j)) * mouseForce (config c)
                  * ((mouseInfluence (config c) - distanceToPointer c j) / mouseInfluence (config c))\<rparr>
         \<and> (mouseInfluence (config c) - distanceToPointer c j) / mouseInfluence (config c)
             \<le> (mouseInfluence (config c) - distanceToPointer c i) / mouseInfluence (config c)
         \<and> 0 < (mouseInfluence (config c) - distanceToPointer c j) / mouseInfluence (config c)
         \<and> (mouseInfluence (config c) - distanceToPointer c i) / mouseInfluence (config c) \<le> 1"
proof -
  let ?R = "mouseInfluence (config c)"
  have di: "0 \<le> distanceToPointer c i" and dj: "0 \<le> distanceToPointer c j"
    by (rule pointerDistance_nonneg)+
  have ini: "distanceToPointer c i < ?R"
    using assms(3,4) by linarith
  then have R: "0 < ?R"
    using di by linarith
  have le: "(?R - distanceToPointer c j) / ?R \<le> (?R - distanceToPointer c i) / ?R"
    using assms(3) R by (simp add: divide_right_mono)
  show ?thesis
    using applyMouseInfluence_inside[OF assms(1) ini] applyMouseInfluence_inside[OF assms(2,4)]
      le factor_inside(1)[OF dj assms(4)] factor_inside(2)[OF di ini]
    by (intro conjI)
qed

theorem closer_star_stronger_pull_witness:
  "0 < length (stars (sample_field [sample_star 10 0 0 0, sample_star 50 0 0 0] 0 0))
   \<and> 1 < length (stars (sample_field [sample_star 10 0 0 0, sample_star 50 0 0 0] 0 0))
   \<and> distanceToPointer (sample_field [sample_star 10 0 0 0, sample_star 50 0 0 0] 0 0) 0 = 10
   \<and> distanceToPointer (sample_field [sample_star 10 0 0 0, sample_star 50 0 0 0] 0 0) 1 = 50
   \<and> mouseInfluence (config (sample_field [sample_star 10 0 0 0, sample_star 50 0 0 0] 0 0)) = 100
   \<and> stars (applyMouseInfluence (sample_field [sample_star 10 0 0 0, sample_star 50 0 0 0] 0 0)) ! 0
       = sample_star 10 0 (- 0.00045) 0
   \<and> stars (applyMouseInfluence (sample_field [sample_star 10 0 0 0, sample_star 50 0 0 0] 0 0)) ! 1
       = sample_star 50 0 (- 0.00125) 0"
proof -
  let ?c = "sample_field [sample_star 10 0 0 0, sample_star 50 0 0 0] 0 0"
  have k: "0 < length (stars ?c)" "1 < length (stars ?c)"
    by (simp_all add: sample_field_def)
  have d: "distanceToPointer ?c 0 = 10" "distanceToPointer ?c 1 = 50"
    by (simp_all add: sample_field_def sample_distances)
  have R: "mouseInfluence (config ?c) = 100"
    by (simp add: sample_field_def default_config_def)
  have h: "distanceToPointer ?c 0 < distanceToPointer ?c 1"
    "distanceToPointer ?c 1 < mouseInfluence (config ?c)"
    unfolding d R by simp_all
  note t = closer_star_stronger_pull[OF k h]
  have "stars (applyMouseInfluence ?c) ! 0 = sample_star 10 0 (- 0.00045) 0"
    using t unfolding d R by (simp add: sample_field_def sample_star_def default_config_def)
  moreover have "stars (applyMouseInfluence ?c) ! 1 = sample_star 50 0 (- 0.00125) 0"
    using t unfolding d R by (simp add: sample_field_def sample_star_def default_config_def)
  ultimately show ?thesis
    using k d R by simp
qed

text \<open>
  C4, as stated, fails. With the pointer at the origin and the configuration of the
  constructor, the star at the distance 10 receives a velocity of length \<open>0.00045\<close> and
  the star at the distance 50 one of length \<open>0.00125\<close>: the closer star receives less.
\<close>

theorem closer_star_weaker_pull:
  "pointerDistance 0 0 (sample_star 10 0 0 0) = 10
   \<and> pointerDistance 0 0 (sample_star 50 0 0 0) = 50
   \<and> mouseInfluence default_config = 100
   \<and> addedSpeed default_config 0 0 (sample_star 10 0 0 0) = 0.00045
   \<and> addedSpeed default_config 0 0 (sample_star 50 0 0 0) = 0.00125
   \<and> \<not> addedSpeed default_config 0 0 (sample_star 50 0 0 0)
         \<le> addedSpeed default_config 0 0 (sample_star 10 0 0 0)"
proof -
  have a: "addedSpeed default_config 0 0 (sample_star 10 0 0 0) = 0.00045"
    by (subst addedSpeed_inside) (simp_all add: sample_distances default_config_def force_def)
  have b: "addedSpeed default_config 0 0 (sample_star 50 0 0 0) = 0.00125"
    by (subst addedSpeed_inside) (simp_all add: sample_distances default_config_def force_def)
  show ?thesis
    unfolding a b by (simp add: sample_distances default_config_def)
qed

text \<open>
  C8. \<open>applyMouseInfluence\<close> adds to the velocity of a star at a distance \<open>d\<close> below
  \<open>mouseInfluence\<close> its displacement to the pointer times \<open>mouseForce\<close> times the factor
  \<open>(mouseInfluence - d) / mouseInfluence\<close>, which is in \<open>(0, 1]\<close> and is \<open>1\<close>, its
  largest value, at the distance \<open>0\<close>. A star at a distance of \<open>mouseInfluence\<close> or more
  is left as it is, the added velocity being zero.
\<close>

theorem pointer_boundaries:
  assumes "k < length (stars c)"
  shows "(distanceToPointer c k < mouseInfluence (config c) \<longrightarrow>
            stars (applyMouseInfluence c) ! k =
              (stars c ! k)
                \<lparr>vx := vx (stars c ! k)
                   + (mouse_x c - star_x (stars c ! k)) * mouseForce (config c)
                     * ((mouseInfluence (config c) - distanceToPointer c k)
                          / mouseInfluence (config c)),
                  vy := vy (stars c ! k)
                   + (mouse_y c - star_y (stars c ! k)) * mouseForce (config c)
                     * ((mouseInfluence (config c) - distanceToPointer c k)
                          / mouseInfluence (config c))\<rparr>
            \<and> 0 < (mouseInfluence (config c) - distanceToPointer c k) / mouseInfluence (config c)
            \<and> (mouseInfluence (config c) - distanceToPointer c k) / mouseInfluence (config c) \<le> 1)
         \<and> (0 < mouseInfluence (config c) \<and> distanceToPointer c k = 0 \<longrightarrow>
              distanceToPointer c k < mouseInfluence (config c)
              \<and> (mouseInfluence (config c) - distanceToPointer c k) / mouseInfluence (config c) = 1)
         \<and> (mouseInfluence (config c) \<le> distanceToPointer c k \<longrightarrow>
              stars (applyMouseInfluence c) ! k = stars c ! k
              \<and> addedSpeed (config c) (mouse_x c) (mouse_y c) (stars c ! k) = 0)"
proof (intro conjI impI)
  assume i: "distanceToPointer c k < mouseInfluence (config c)"
  show "stars (applyMouseInfluence c) ! k =
              (stars c ! k)
                \<lparr>vx := vx (stars c ! k)
                   + (mouse_x c - star_x (stars c ! k)) * mouseForce (config c)
                     * ((mouseInfluence (config c) - distanceToPointer c k)
                          / mouseInfluence (config c)),
                  vy := vy (stars c ! k)
                   + (mouse_y c - star_y (stars c ! k)) * mouseForce (config c)
                     * ((mouseInfluence (config c) - distanceToPointer c k)
                          / mouseInfluence (config c))\<rparr>"
    by (rule applyMouseInfluence_inside[OF assms i])
  show "0 < (mouseInfluence (config c) - distanceToPointer c k) / mouseInfluence (config c)"
    "(mouseInfluence (config c) - distanceToPointer c k) / mouseInfluence (config c) \<le> 1"
    by (rule factor_inside[OF pointerDistance_nonneg i])+
next
  assume "0 < mouseInfluence (config c) \<and> distanceToPointer c k = 0"
  then show "distanceToPointer c k < mouseInfluence (config c)"
    "(mouseInfluence (config c) - distanceToPointer c k) / mouseInfluence (config c) = 1"
    by simp_all
next
  assume o: "mouseInfluence (config c) \<le> distanceToPointer c k"
  show "stars (applyMouseInfluence c) ! k = stars c ! k"
    by (rule applyMouseInfluence_outside[OF assms o])
  show "addedSpeed (config c) (mouse_x c) (mouse_y c) (stars c ! k) = 0"
    by (rule addedSpeed_outside[OF o])
qed

theorem pointer_boundaries_witness:
  "2 < length (stars (sample_field
        [sample_star 7 9 1 1, sample_star 57 9 1 1, sample_star 107 9 1 1] 7 9))
   \<and> mouseInfluence (config (sample_field
        [sample_star 7 9 1 1, sample_star 57 9 1 1, sample_star 107 9 1 1] 7 9)) = 100
   \<and> distanceToPointer (sample_field
        [sample_star 7 9 1 1, sample_star 57 9 1 1, sample_star 107 9 1 1] 7 9) 0 = 0
   \<and> distanceToPointer (sample_field
        [sample_star 7 9 1 1, sample_star 57 9 1 1, sample_star 107 9 1 1] 7 9) 1 = 50
   \<and> distanceToPointer (sample_field
        [sample_star 7 9 1 1, sample_star 57 9 1 1, sample_star 107 9 1 1] 7 9) 2 = 100
   \<and> stars (applyMouseInfluence (sample_field
        [sample_star 7 9 1 1, sample_star 57 9 1 1, sample_star 107 9 1 1] 7 9)) ! 0
       = sample_star 7 9 1 1
   \<and> stars (applyMouseInfluence (sample_field
        [sample_star 7 9 1 1, sample_star 57 9 1 1, sample_star 107 9 1 1] 7 9)) ! 1
       = sample_star 57 9 0.99875 1
   \<and> stars (applyMouseInfluence (sample_field
        [sample_star 7 9 1 1, sample_star 57 9 1 1, sample_star 107 9 1 1] 7 9)) ! 2
       = sample_star 107 9 1 1"
proof -
  let ?c = "sample_field [sample_star 7 9 1 1, sample_star 57 9 1 1, sample_star 107 9 1 1] 7 9"
  have k: "0 < length (stars ?c)" "1 < length (stars ?c)" "2 < length (stars ?c)"
    by (simp_all add: sample_field_def)
  have R: "mouseInfluence (config ?c) = 100"
    by (simp add: sample_field_def default_config_def)
  have d: "distanceToPointer ?c 0 = 0" "distanceToPointer ?c 1 = 50"
    "distanceToPointer ?c 2 = 100"
    by (simp_all add: sample_field_def pointerDistance_def sample_star_def sqrt_2500 sqrt_10000)
  have "stars (applyMouseInfluence ?c) ! 0 = sample_star 7 9 1 1"
    using pointer_boundaries[OF k(1)] unfolding d R
    by (simp add: sample_field_def sample_star_def default_config_def)
  moreover have "stars (applyMouseInfluence ?c) ! 1 = sample_star 57 9 0.99875 1"
    using pointer_boundaries[OF k(2)] unfolding d R
    by (simp add: sample_field_def sample_star_def default_config_def)
  moreover have "stars (applyMouseInfluence ?c) ! 2 = sample_star 107 9 1 1"
    using pointer_boundaries[OF k(3)] unfolding d R
    by (simp add: sample_field_def sample_star_def default_config_def)
  ultimately show ?thesis
    using k(3) R d by simp
qed

section \<open>Creation\<close>

lemma createStars_stars:
  assumes "createStars rnd c = Some c'"
  shows "\<exists>n. stars c' =
           map (\<lambda>i. storeOriginal (pushedStar (width c) (height c) (config c) rnd i)) [0..<n]"
  using assms
  by (auto simp: createStars_def pushStars_map comp_def split: option.splits)

text \<open>
  C6. In a window that is not negative in either direction and with a positive
  \<open>starDensity\<close>, \<open>createStars\<close> returns, with exactly
  \<open>floor (width * height / starDensity)\<close> stars: none when the quotient is below \<open>1\<close>,
  and 60 in a window of 800 by 600 with the density 8000 (the witness). The stars it
  found in the array do not matter: the result is the same for any old array.
\<close>

theorem star_count:
  assumes "0 \<le> width c" and "0 \<le> height c" and "0 < starDensity (config c)"
  shows "\<exists>c'. createStars rnd c = Some c'
           \<and> int (length (stars c')) = \<lfloor>width c * height c / starDensity (config c)\<rfloor>
           \<and> (width c * height c / starDensity (config c) < 1 \<longrightarrow> stars c' = [])
           \<and> (\<forall>old. createStars rnd (c\<lparr>stars := old\<rparr>) = Some c')"
proof -
  let ?q = "width c * height c / starDensity (config c)"
  have q: "0 \<le> ?q" using assms by simp
  then have f: "0 \<le> \<lfloor>?q\<rfloor>" by simp
  have d: "starDensity (config c) \<noteq> 0" using assms(3) by simp
  have "\<lfloor>?q\<rfloor> = 0" if "?q < 1"
    using q that by (simp add: floor_eq_iff)
  moreover have "createStars rnd (c\<lparr>stars := old\<rparr>) = createStars rnd c" for old
    by (simp add: createStars_def numStars_def Let_def)
  ultimately show ?thesis
    using f by (simp add: createStars_Some[OF d])
qed

theorem star_count_witness:
  "0 \<le> width (sample_field [sample_star 1 1 0 0] 0 0)
   \<and> 0 \<le> height (sample_field [sample_star 1 1 0 0] 0 0)
   \<and> 0 < starDensity (config (sample_field [sample_star 1 1 0 0] 0 0))
   \<and> \<lfloor>width (sample_field [sample_star 1 1 0 0] 0 0) * height (sample_field [sample_star 1 1 0 0] 0 0)
        / starDensity (config (sample_field [sample_star 1 1 0 0] 0 0))\<rfloor> = 60
   \<and> (\<exists>c'. createStars draws_half (sample_field [sample_star 1 1 0 0] 0 0) = Some c'
         \<and> length (stars c') = 60
         \<and> createStars draws_half (sample_field [] 0 0) = Some c')
   \<and> width (resizeCanvas 50 50 small_window) * height (resizeCanvas 50 50 small_window)
        / starDensity (config (resizeCanvas 50 50 small_window)) < 1
   \<and> (\<exists>c'. createStars draws_half (resizeCanvas 50 50 small_window) = Some c' \<and> stars c' = [])"
proof -
  let ?A = "sample_field [sample_star 1 1 0 0] 0 0"
  let ?B = "resizeCanvas 50 50 small_window"
  have hA: "0 \<le> width ?A" "0 \<le> height ?A" "0 < starDensity (config ?A)"
    by (simp_all add: sample_field_def default_config_def)
  have hB: "0 \<le> width ?B" "0 \<le> height ?B" "0 < starDensity (config ?B)"
    by (simp_all add: resizeCanvas_def small_window_def default_config_def)
  have fA: "\<lfloor>width ?A * height ?A / starDensity (config ?A)\<rfloor> = 60"
    by (simp add: sample_field_def default_config_def)
  have qB: "width ?B * height ?B / starDensity (config ?B) < 1"
    by (simp add: resizeCanvas_def small_window_def default_config_def)
  have e: "?A\<lparr>stars := []\<rparr> = sample_field [] 0 0"
    by (simp add: sample_field_def)
  from star_count[OF hA, of draws_half] obtain c' where
    "createStars draws_half ?A = Some c'" "int (length (stars c')) = 60"
    "createStars draws_half (?A\<lparr>stars := []\<rparr>) = Some c'"
    unfolding fA by blast
  then have A: "\<exists>c'. createStars draws_half ?A = Some c' \<and> length (stars c') = 60
         \<and> createStars draws_half (sample_field [] 0 0) = Some c'"
    unfolding e by auto
  from star_count[OF hB, of draws_half] qB
  have B: "\<exists>c'. createStars draws_half ?B = Some c' \<and> stars c' = []"
    by blast
  from hA fA A qB B show ?thesis by blast
qed

text \<open>
  C10. With draws in \<open>[0, 1)\<close> and \<open>speed.min < speed.max\<close>, star \<open>k\<close> is created with
  \<open>vx = (r - 0.5) * (speed.max - speed.min) + speed.min\<close> for its fifth draw \<open>r\<close>, and
  \<open>vy\<close> likewise for its sixth; both lie in
  \<open>[speed.min - (speed.max - speed.min) / 2, speed.min + (speed.max - speed.min) / 2)\<close>,
  and the original velocity is this velocity. With the configuration of the constructor
  both components of the original velocity are in \<open>[-0.6, 0)\<close>: never positive.
\<close>

theorem initial_velocity_range:
  assumes "unit_draws rnd"
      and "speed_min (config c) < speed_max (config c)"
      and "createStars rnd c = Some c'"
      and "k < length (stars c')"
  shows "vx (stars c' ! k) =
           (rnd (6 * k + 4) - 0.5) * (speed_max (config c) - speed_min (config c))
             + speed_min (config c)
         \<and> vy (stars c' ! k) =
           (rnd (6 * k + 5) - 0.5) * (speed_max (config c) - speed_min (config c))
             + speed_min (config c)
         \<and> originalVx (stars c' ! k) = vx (stars c' ! k)
         \<and> originalVy (stars c' ! k) = vy (stars c' ! k)
         \<and> speed_min (config c) - (speed_max (config c) - speed_min (config c)) / 2
              \<le> vx (stars c' ! k)
         \<and> vx (stars c' ! k)
              < speed_min (config c) + (speed_max (config c) - speed_min (config c)) / 2
         \<and> speed_min (config c) - (speed_max (config c) - speed_min (config c)) / 2
              \<le> vy (stars c' ! k)
         \<and> vy (stars c' ! k)
              < speed_min (config c) + (speed_max (config c) - speed_min (config c)) / 2
         \<and> (config c = default_config \<longrightarrow>
               - 0.6 \<le> originalVx (stars c' ! k) \<and> originalVx (stars c' ! k) < 0
               \<and> - 0.6 \<le> originalVy (stars c' ! k) \<and> originalVy (stars c' ! k) < 0)"
proof -
  let ?w = "speed_max (config c) - speed_min (config c)"
  from createStars_stars[OF assms(3)] obtain n where
    n: "stars c' = map (\<lambda>i. storeOriginal (pushedStar (width c) (height c) (config c) rnd i)) [0..<n]"
    by blast
  with assms(4) have s: "stars c' ! k = storeOriginal (pushedStar (width c) (height c) (config c) rnd k)"
    by simp
  have v: "vx (stars c' ! k) = (rnd (6 * k + 4) - 0.5) * ?w + speed_min (config c)"
    "vy (stars c' ! k) = (rnd (6 * k + 5) - 0.5) * ?w + speed_min (config c)"
    "originalVx (stars c' ! k) = vx (stars c' ! k)"
    "originalVy (stars c' ! k) = vy (stars c' ! k)"
    by (simp_all add: s storeOriginal_def pushedStar_def)
  have w: "0 < ?w" using assms(2) by simp
  have r: "- (1/2) \<le> rnd i - 0.5 \<and> rnd i - 0.5 < 1/2" for i
    using assms(1) by (simp add: unit_draws_def)
  have b: "- (?w / 2) \<le> (rnd i - 0.5) * ?w \<and> (rnd i - 0.5) * ?w < ?w / 2" for i
  proof -
    have "(- (1/2)) * ?w \<le> (rnd i - 0.5) * ?w"
      using r[of i] w by (intro mult_right_mono) simp_all
    moreover have "(rnd i - 0.5) * ?w < (1/2) * ?w"
      using r[of i] w by (intro mult_strict_right_mono) simp_all
    ultimately show ?thesis by simp
  qed
  have range: "speed_min (config c) - ?w / 2 \<le> vx (stars c' ! k)"
    "vx (stars c' ! k) < speed_min (config c) + ?w / 2"
    "speed_min (config c) - ?w / 2 \<le> vy (stars c' ! k)"
    "vy (stars c' ! k) < speed_min (config c) + ?w / 2"
    using b[of "6 * k + 4"] b[of "6 * k + 5"] unfolding v by simp_all
  have "- 0.6 \<le> originalVx (stars c' ! k) \<and> originalVx (stars c' ! k) < 0
        \<and> - 0.6 \<le> originalVy (stars c' ! k) \<and> originalVy (stars c' ! k) < 0"
    if "config c = default_config"
    using range unfolding v(3,4) that by (simp add: default_config_def)
  with v range show ?thesis by simp
qed

theorem initial_velocity_range_witness:
  "unit_draws draws_half
   \<and> speed_min (config small_window) < speed_max (config small_window)
   \<and> createStars draws_half small_window =
       Some (small_window\<lparr>stars := [\<lparr>star_x = 50, star_y = 50, star_size = 1.25,
          star_opacity = 0.5, vx = - 0.3, vy = - 0.3, originalVx = - 0.3, originalVy = - 0.3\<rparr>]\<rparr>)
   \<and> - 0.6 \<le> (- 0.3 :: real) \<and> (- 0.3 :: real) < 0"
proof -
  let ?c' = "small_window\<lparr>stars := [\<lparr>star_x = 50, star_y = 50, star_size = 1.25,
          star_opacity = 0.5, vx = - 0.3, vy = - 0.3, originalVx = - 0.3, originalVy = - 0.3\<rparr>]\<rparr>"
  have h: "unit_draws draws_half" "speed_min (config small_window) < speed_max (config small_window)"
    by (simp_all add: unit_draws_def draws_half_def small_window_def default_config_def)
  have c: "createStars draws_half small_window = Some ?c'"
    by (simp add: createStars_def numStars_def small_window_def default_config_def Let_def
      pushedStar_def storeOriginal_def draws_half_def)
  have k: "0 < length (stars ?c')" by simp
  from initial_velocity_range[OF h c k] h c show ?thesis
    by (simp add: small_window_def)
qed

section \<open>The original velocity\<close>

lemma animate_original:
  "map originalVx (stars (animate rnd c)) = map originalVx (stars c)"
  "map originalVy (stars (animate rnd c)) = map originalVy (stars c)"
  by (simp_all add: list_eq_iff_nth_eq length_animate nth_animate influenceStar_frame
      updateStar_original)

lemma handle_original:
  assumes "keeps_stars e"
  shows "\<exists>c'. handle e c = Some c' \<and>
           map originalVx (stars c') = map originalVx (stars c) \<and>
           map originalVy (stars c') = map originalVy (stars c)"
  using assms by (cases e) (simp_all add: animate_original)

text \<open>
  C9. Frames and the pointer listeners (\<open>mousemove\<close>, \<open>touchmove\<close>, \<open>mouseleave\<close>), in
  any number and order, return and leave \<open>originalVx\<close> and \<open>originalVy\<close> of every star
  as they were.
\<close>

theorem original_velocity_kept:
  assumes "list_all keeps_stars evs"
  shows "\<exists>c'. run evs c = Some c' \<and>
           map originalVx (stars c') = map originalVx (stars c) \<and>
           map originalVy (stars c') = map originalVy (stars c)"
  using assms
proof (induction evs arbitrary: c)
  case Nil
  then show ?case by simp
next
  case (Cons e evs)
  then obtain c1 where c1: "handle e c = Some c1"
    "map originalVx (stars c1) = map originalVx (stars c)"
    "map originalVy (stars c1) = map originalVy (stars c)"
    using handle_original[of e c] by auto
  from Cons have "list_all keeps_stars evs" by simp
  from Cons.IH[OF this, of c1] c1 show ?case by simp
qed

theorem original_velocity_kept_witness:
  "list_all keeps_stars [MouseMove 3 4, Frame draws_half, MouseLeave, TouchMove 1 1, Frame draws_zero]
   \<and> (\<exists>c'. run [MouseMove 3 4, Frame draws_half, MouseLeave, TouchMove 1 1, Frame draws_zero]
              (sample_field [sample_star 10 10 1 1] 0 0) = Some c'
         \<and> map originalVx (stars c') = [- 0.3] \<and> map originalVy (stars c') = [- 0.3])"
  using original_velocity_kept
    [of "[MouseMove 3 4, Frame draws_half, MouseLeave, TouchMove 1 1, Frame draws_zero]"
        "sample_field [sample_star 10 10 1 1] 0 0"]
  by (simp add: sample_field_def sample_star_def)


end
